theory Spec2Isabelle
  imports Complex_Main
begin

section \<open>The ACEnsemble command-line runner (\<^verbatim>\<open>spatialcluster/cmd/acens.py\<close>)\<close>

text \<open>
  The runner parses a GSLIB-style parameter string (\<^verbatim>\<open>parsepars\<close>), hands the parsed
  parameters to the clustering object, and writes the labels to a table (\<^verbatim>\<open>main\<close>).
  Python exceptions are values of the type \<open>error\<close>; a computation that may raise
  returns \<open>error + 'a\<close>, with \<open>Inl\<close> the raised exception.
\<close>

subsection \<open>Exceptions\<close>

datatype error =
    IndexError
  | ValueError
  | TypeError
  | AssertionError
  | IOError
  | InvalidGeometryError
  | DegenerateRealizationError
  | InsufficientEnsembleError
  | InvalidConfigurationError

text \<open>Sequencing of two computations: the first exception raised ends the run.\<close>

definition ebind :: "error + 'a \<Rightarrow> ('a \<Rightarrow> error + 'b) \<Rightarrow> error + 'b" where
  "ebind m f = (case m of Inl e \<Rightarrow> Inl e | Inr x \<Rightarrow> f x)"

text \<open>A list comprehension \<^verbatim>\<open>[f(x) for x in xs]\<close>: left to right, stopping at the first exception.\<close>

fun emap :: "('a \<Rightarrow> error + 'b) \<Rightarrow> 'a list \<Rightarrow> error + 'b list" where
  "emap f [] = Inr []"
| "emap f (x # xs) =
     (case f x of
        Inl e \<Rightarrow> Inl e
      | Inr y \<Rightarrow> (case emap f xs of Inl e \<Rightarrow> Inl e | Inr ys \<Rightarrow> Inr (y # ys)))"

subsection \<open>Python sequences and strings\<close>

text \<open>
  A Python \<^verbatim>\<open>str\<close> is modelled as a \<open>string\<close> whose characters are the code points
  below 256. \<^verbatim>\<open>xs[i]\<close> counts a negative index from the end and raises IndexError
  out of range; a slice clamps its bounds instead.
\<close>

definition getitem :: "'a list \<Rightarrow> int \<Rightarrow> error + 'a" where
  "getitem xs i =
     (if 0 \<le> i \<and> i < int (length xs) then Inr (xs ! nat i)
      else if i < 0 \<and> - int (length xs) \<le> i then Inr (xs ! nat (int (length xs) + i))
      else Inl IndexError)"

definition slice_bound :: "nat \<Rightarrow> int \<Rightarrow> nat" where
  "slice_bound n i = (if i < 0 then nat (int n + i) else min (nat i) n)"

text \<open>\<^verbatim>\<open>xs[a:b]\<close> and \<^verbatim>\<open>xs[:b]\<close>.\<close>

definition slice :: "'a list \<Rightarrow> int \<Rightarrow> int \<Rightarrow> 'a list" where
  "slice xs a b =
     (let n = length xs in drop (slice_bound n a) (take (slice_bound n b) xs))"

definition slice_to :: "'a list \<Rightarrow> int \<Rightarrow> 'a list" where
  "slice_to xs b = take (slice_bound (length xs) b) xs"

text \<open>\<^verbatim>\<open>str.isspace\<close> on one character, for code points below 256.\<close>

definition isspace :: "char \<Rightarrow> bool" where
  "isspace c =
     (let k = (of_char c :: nat)
      in (9 \<le> k \<and> k \<le> 13) \<or> (28 \<le> k \<and> k \<le> 32) \<or> k = 133 \<or> k = 160)"

text \<open>\<^verbatim>\<open>s.split()\<close>: the maximal runs of characters that are not whitespace.\<close>

fun split_go :: "string \<Rightarrow> string \<Rightarrow> string list" where
  "split_go cur [] = (if cur = [] then [] else [cur])"
| "split_go cur (c # cs) =
     (if isspace c
      then (if cur = [] then split_go [] cs else cur # split_go [] cs)
      else split_go (cur @ [c]) cs)"

definition str_split :: "string \<Rightarrow> string list" where
  "str_split s = split_go [] s"

text \<open>
  \<^verbatim>\<open>s.splitlines()\<close>: a line ends at \<^verbatim>\<open>\n\<close>, \<^verbatim>\<open>\r\<close>, \<^verbatim>\<open>\r\n\<close>, \<^verbatim>\<open>\v\<close>, \<^verbatim>\<open>\f\<close>,
  \<^verbatim>\<open>\x1c\<close>, \<^verbatim>\<open>\x1d\<close>, \<^verbatim>\<open>\x1e\<close> or \<^verbatim>\<open>\x85\<close>; the line breaks are dropped and a
  final line break opens no further line.
\<close>

definition islinebreak :: "char \<Rightarrow> bool" where
  "islinebreak c =
     (let k = (of_char c :: nat)
      in (10 \<le> k \<and> k \<le> 13) \<or> (28 \<le> k \<and> k \<le> 30) \<or> k = 133)"

fun splitlines_go :: "string \<Rightarrow> string \<Rightarrow> string list" where
  "splitlines_go cur [] = (if cur = [] then [] else [cur])"
| "splitlines_go cur [c] = (if islinebreak c then [cur] else [cur @ [c]])"
| "splitlines_go cur (c # d # ds) =
     (if c = CHR 0x0D \<and> d = CHR 0x0A then cur # splitlines_go [] ds
      else if islinebreak c then cur # splitlines_go [] (d # ds)
      else splitlines_go (cur @ [c]) (d # ds))"

definition splitlines :: "string \<Rightarrow> string list" where
  "splitlines s = splitlines_go [] s"

text \<open>\<^verbatim>\<open>s.rfind(c)\<close> for a single character: the last index of \<open>c\<close>, or \<open>-1\<close>.\<close>

fun rfind :: "string \<Rightarrow> char \<Rightarrow> int" where
  "rfind [] c = - 1"
| "rfind (x # xs) c =
     (let r = rfind xs c in if 0 \<le> r then r + 1 else if x = c then 0 else - 1)"

text \<open>
  \<^verbatim>\<open>int(s)\<close> on a token without whitespace: an optional sign, then decimal digits, where
  single underscores may stand between digits. Anything else raises ValueError.
\<close>

definition digit_val :: "char \<Rightarrow> int option" where
  "digit_val c =
     (let k = (of_char c :: nat)
      in if 48 \<le> k \<and> k \<le> 57 then Some (int k - 48) else None)"

fun digits_go :: "int \<Rightarrow> bool \<Rightarrow> string \<Rightarrow> int option" where
  "digits_go acc lastd [] = (if lastd then Some acc else None)"
| "digits_go acc lastd (c # cs) =
     (if c = CHR ''_'' then (if lastd then digits_go acc False cs else None)
      else (case digit_val c of
              None \<Rightarrow> None
            | Some d \<Rightarrow> digits_go (10 * acc + d) True cs))"

definition py_int :: "string \<Rightarrow> error + int" where
  "py_int s =
     (let r = (case s of
                 [] \<Rightarrow> None
               | c # cs \<Rightarrow>
                   if c = CHR ''-'' then map_option uminus (digits_go 0 False cs)
                   else if c = CHR ''+'' then digits_go 0 False cs
                   else digits_go 0 False s)
      in case r of None \<Rightarrow> Inl ValueError | Some n \<Rightarrow> Inr n)"

text \<open>\<^verbatim>\<open>bool(int(s))\<close>.\<close>

definition py_bool_int :: "string \<Rightarrow> error + bool" where
  "py_bool_int s = ebind (py_int s) (\<lambda>n. Inr (n \<noteq> 0))"

text \<open>\<^verbatim>\<open>str(n)\<close> for a natural number.\<close>

fun str_nat :: "nat \<Rightarrow> string" where
  "str_nat n =
     (if n < 10 then [char_of (48 + n)]
      else str_nat (n div 10) @ [char_of (48 + n mod 10)])"

subsection \<open>Tables and arrays\<close>

text \<open>
  A pandas DataFrame is a row count (the length of its index) and its columns in
  order, each a name and its values. A cell is a float (\<open>Num\<close>), an integer label
  (\<open>Lab\<close>) or the missing value. A two-dimensional numpy array is its shape and its
  rows.
\<close>

datatype 'f cell = Num 'f | Lab int | NaN

record 'f frame =
  nrows :: nat
  columns :: "(string \<times> 'f cell list) list"

record 'a array2 =
  shape0 :: nat
  shape1 :: nat
  rows :: "'a list list"

text \<open>\<^verbatim>\<open>DataFrame()\<close>.\<close>

definition empty_frame :: "'f frame" where
  "empty_frame = \<lparr>nrows = 0, columns = []\<rparr>"

text \<open>\<^verbatim>\<open>data.columns\<close>.\<close>

definition column_names :: "'f frame \<Rightarrow> string list" where
  "column_names fr = map fst (columns fr)"

text \<open>
  \<^verbatim>\<open>data[[n1, n2, ...]]\<close> and \<^verbatim>\<open>data[n]\<close>: for each requested name in turn, every column
  of that name (pandas returns all of them when a name is repeated in the table).
\<close>

definition matching :: "'f frame \<Rightarrow> string \<Rightarrow> 'f cell list list" where
  "matching fr name = map snd (filter (\<lambda>c. fst c = name) (columns fr))"

definition select :: "'f frame \<Rightarrow> string list \<Rightarrow> 'f cell list list" where
  "select fr names = concat (map (matching fr) names)"

text \<open>\<^verbatim>\<open>.values\<close> of a selection of a table with \<open>n\<close> rows: one row per table row.\<close>

definition values_of :: "nat \<Rightarrow> 'a list list \<Rightarrow> 'a array2" where
  "values_of n cols =
     \<lparr>shape0 = n, shape1 = length cols, rows = map (\<lambda>r. map (\<lambda>c. c ! r) cols) [0..<n]\<rparr>"

text \<open>\<^verbatim>\<open>np.c_[a, b]\<close>: the columns of \<open>b\<close> after those of \<open>a\<close>; the row counts must agree.\<close>

definition np_c :: "'a array2 \<Rightarrow> 'a array2 \<Rightarrow> error + 'a array2" where
  "np_c a b =
     (if shape0 a \<noteq> shape0 b then Inl ValueError
      else Inr \<lparr>shape0 = shape0 a, shape1 = shape1 a + shape1 b,
                rows = map (\<lambda>(r, s). r @ s) (zip (rows a) (rows b))\<rparr>)"

text \<open>\<^verbatim>\<open>a[:, i]\<close> for \<open>i\<close> from a \<^verbatim>\<open>range\<close>.\<close>

definition column :: "'a array2 \<Rightarrow> nat \<Rightarrow> error + 'a list" where
  "column a i = (if i < shape1 a then Inr (map (\<lambda>r. r ! i) (rows a)) else Inl IndexError)"

text \<open>
  \<^verbatim>\<open>data[name] = values\<close> for an array of values, in three steps. A table whose
  index is empty takes the index of a non-empty value first, and its columns are
  refilled with the missing value; then the lengths must agree; then every column of
  that name is replaced, or a new last column is added.
\<close>

definition take_index :: "'f frame \<Rightarrow> nat \<Rightarrow> 'f frame" where
  "take_index fr n =
     (if nrows fr = 0 \<and> 0 < n
      then \<lparr>nrows = n, columns = map (\<lambda>c. (fst c, replicate n NaN)) (columns fr)\<rparr>
      else fr)"

definition put_column :: "'f frame \<Rightarrow> string \<Rightarrow> 'f cell list \<Rightarrow> 'f frame" where
  "put_column fr name vals =
     (if name \<in> set (column_names fr)
      then fr\<lparr>columns := map (\<lambda>c. if fst c = name then (name, vals) else c) (columns fr)\<rparr>
      else fr\<lparr>columns := columns fr @ [(name, vals)]\<rparr>)"

definition setitem :: "'f frame \<Rightarrow> string \<Rightarrow> 'f cell list \<Rightarrow> error + 'f frame" where
  "setitem fr name vals =
     (let fr1 = take_index fr (length vals)
      in if length vals \<noteq> nrows fr1 then Inl ValueError
         else Inr (put_column fr1 name vals))"

subsection \<open>The parsed parameters\<close>

text \<open>
  \<open>config\<close> holds the keys of the dictionary \<^verbatim>\<open>pars\<close> that reach the clustering object
  as keyword arguments; \<open>pars\<close> extends it by the keys that \<^verbatim>\<open>main\<close> pops before.
\<close>

record 'f config =
  locations :: "'f cell array2"
  dhs :: "'f cell list option"
  mvdata :: "'f cell array2"
  nnears :: int
  searchparams :: "'f list"
  cluster_method :: string
  acmetric :: "int list"
  acprop :: "'f list"
  rseed :: int
  nreal :: int
  minvars :: int
  minremove :: 'f
  maxremove :: 'f
  minfound :: 'f
  maxfound :: 'f

record 'f pars = "'f config" +
  datafile :: string
  outfile :: string
  saveall :: bool
  recode :: bool
  appendout :: bool
  fnclus :: int
  tnclus :: int
  consensus_method :: string

subsection \<open>The collaborators of the runner\<close>

text \<open>
  The helpers of \<^verbatim>\<open>spatialcluster.utils\<close> and the builtin \<^verbatim>\<open>float\<close> are parameters of
  the model: \<open>parstr_sectionindexes\<close> returns the start and end line indexes of the
  sections, \<open>read_gslib\<close> and \<open>readparfile\<close> read a file, \<open>isfile\<close> is
  \<^verbatim>\<open>os.path.isfile\<close>, and \<open>to_float\<close> is \<^verbatim>\<open>float\<close> on a token.
\<close>

record 'f env =
  parstr_sectionindexes :: "string \<Rightarrow> string list \<Rightarrow> error + (int list \<times> int list)"
  read_gslib :: "string \<Rightarrow> error + 'f frame"
  readparfile :: "string \<Rightarrow> error + string"
  isfile :: "string \<Rightarrow> bool"
  to_float :: "string \<Rightarrow> error + 'f"

subsection \<open>\<^verbatim>\<open>parsepars\<close>\<close>

text \<open>Unpacking a list into two or four names raises ValueError on any other length.\<close>

fun unpack2 :: "'a list \<Rightarrow> error + ('a \<times> 'a)" where
  "unpack2 [a, b] = Inr (a, b)"
| "unpack2 _ = Inl ValueError"

fun unpack4 :: "'a list \<Rightarrow> error + ('a \<times> 'a \<times> 'a \<times> 'a)" where
  "unpack4 [a, b, c, d] = Inr (a, b, c, d)"
| "unpack4 _ = Inl ValueError"

text \<open>
  Lines 64 to 67: the assertion on the x and y column numbers, the x and y columns as
  an array, and the z column appended when its number is positive.
\<close>

definition parse_locations :: "'f frame \<Rightarrow> int \<Rightarrow> int \<Rightarrow> int \<Rightarrow> error + 'f cell array2" where
  "parse_locations data ifx ify ifz =
     (if \<not> (0 < ifx \<and> 0 < ify) then Inl AssertionError
      else
        ebind (getitem (column_names data) (ifx - 1)) (\<lambda>cx.
        ebind (getitem (column_names data) (ify - 1)) (\<lambda>cy.
        let loc = values_of (nrows data) (select data [cx, cy])
        in if 0 < ifz
           then ebind (getitem (column_names data) (ifz - 1)) (\<lambda>cz.
                  np_c loc (values_of (nrows data) (select data [cz])))
           else Inr loc)))"

text \<open>
  Line 68, \<^verbatim>\<open>pars['dhs'] = dh[cols[dh - 1]] if dh > 0 else None\<close>: for a positive \<open>dh\<close>
  the column name is looked up and then the integer \<open>dh\<close> itself is subscripted,
  which raises TypeError.
\<close>

definition parse_dhs :: "'f frame \<Rightarrow> int \<Rightarrow> error + 'f cell list option" where
  "parse_dhs data dh =
     (if 0 < dh
      then ebind (getitem (column_names data) (dh - 1)) (\<lambda>name. Inl TypeError)
      else Inr None)"

text \<open>The data section (lines 53 to 75).\<close>

definition parse_data ::
  "'f env \<Rightarrow> string list \<Rightarrow>
   error + (string \<times> 'f cell array2 \<times> 'f cell list option \<times> 'f cell array2 \<times> string \<times> bool \<times> bool \<times> bool)"
where
  "parse_data env lines =
     ebind (getitem lines 0) (\<lambda>l0.
     ebind (getitem (str_split l0) 0) (\<lambda>dfile.
     ebind (read_gslib env dfile) (\<lambda>data.
     ebind (getitem lines 1) (\<lambda>l1.
     ebind (emap py_int (take 4 (str_split l1))) (\<lambda>cs.
     ebind (unpack4 cs) (\<lambda>(dh, ifx, ify, ifz).
     ebind (parse_locations data ifx ify ifz) (\<lambda>loc.
     ebind (parse_dhs data dh) (\<lambda>dh_vals.
     ebind (getitem lines 2) (\<lambda>l2.
     ebind (emap py_int (str_split (slice_to l2 (rfind l2 CHR ''-'')))) (\<lambda>varcols.
     ebind (emap (\<lambda>vc. getitem (column_names data) (vc - 1)) varcols) (\<lambda>names.
     ebind (getitem lines 3) (\<lambda>l3.
     ebind (getitem (str_split l3) 0) (\<lambda>ofile.
     ebind (getitem lines 4) (\<lambda>l4.
     ebind (emap py_bool_int (take 2 (str_split l4))) (\<lambda>bs.
     ebind (unpack2 bs) (\<lambda>(sall, rec).
     ebind (getitem lines 5) (\<lambda>l5.
     ebind (getitem (str_split l5) 0) (\<lambda>t.
     ebind (py_bool_int t) (\<lambda>app.
     Inr (dfile, loc, dh_vals, values_of (nrows data) (select data names),
          ofile, sall, rec, app))))))))))))))))))))"

text \<open>
  Line 86, \<^verbatim>\<open>[float(a) for a in lines[5][:lines[4].rfind('-')].split()]\<close>: the
  proportions line \<open>l5\<close> is cut at the offset of the last dash of the metrics line \<open>l4\<close>.
\<close>

definition parse_acprop :: "'f env \<Rightarrow> string \<Rightarrow> string \<Rightarrow> error + 'f list" where
  "parse_acprop env l4 l5 = emap (to_float env) (str_split (slice_to l5 (rfind l4 CHR ''-'')))"

text \<open>The autocorrelation section (lines 77 to 86).\<close>

definition parse_ac ::
  "'f env \<Rightarrow> string list \<Rightarrow> error + (int \<times> 'f list \<times> string \<times> int list \<times> 'f list)"
where
  "parse_ac env lines =
     ebind (getitem lines 0) (\<lambda>l0.
     ebind (getitem (str_split l0) 0) (\<lambda>t0.
     ebind (py_int t0) (\<lambda>nn.
     ebind (getitem lines 1) (\<lambda>l1.
     ebind (emap (to_float env) (take 3 (str_split l1))) (\<lambda>angs.
     ebind (getitem lines 2) (\<lambda>l2.
     ebind (emap (to_float env) (take 3 (str_split l2))) (\<lambda>ranges.
     ebind (getitem lines 3) (\<lambda>l3.
     ebind (getitem (str_split l3) 0) (\<lambda>cm.
     ebind (getitem lines 4) (\<lambda>l4.
     ebind (emap py_int (str_split (slice_to l4 (rfind l4 CHR ''-'')))) (\<lambda>metrics.
     ebind (getitem lines 5) (\<lambda>l5.
     ebind (parse_acprop env l4 l5) (\<lambda>props.
     Inr (nn, angs @ ranges, cm, metrics, props))))))))))))))"

text \<open>The first token of a line as an integer: \<^verbatim>\<open>int(lines[i].split()[0])\<close>.\<close>

definition first_int :: "string list \<Rightarrow> int \<Rightarrow> error + int" where
  "first_int lines i =
     ebind (getitem lines i) (\<lambda>l. ebind (getitem (str_split l) 0) py_int)"

text \<open>The first two tokens of a line as floats, unpacked into two names.\<close>

definition two_floats :: "'f env \<Rightarrow> string list \<Rightarrow> int \<Rightarrow> error + ('f \<times> 'f)" where
  "two_floats env lines i =
     ebind (getitem lines i) (\<lambda>l.
     ebind (emap (to_float env) (take 2 (str_split l))) unpack2)"

text \<open>The ensemble section (lines 88 to 96).\<close>

definition parse_ens ::
  "'f env \<Rightarrow> string list \<Rightarrow>
   error + (int \<times> int \<times> int \<times> int \<times> int \<times> 'f \<times> 'f \<times> 'f \<times> 'f \<times> string)"
where
  "parse_ens env lines =
     ebind (first_int lines 0) (\<lambda>seed.
     ebind (first_int lines 1) (\<lambda>nr.
     ebind (first_int lines 2) (\<lambda>mv.
     ebind (getitem lines 3) (\<lambda>l3.
     ebind (emap py_int (take 2 (str_split l3))) (\<lambda>ns.
     ebind (unpack2 ns) (\<lambda>(fn, tn).
     ebind (two_floats env lines 4) (\<lambda>(minr, maxr).
     ebind (two_floats env lines 5) (\<lambda>(minf, maxf).
     ebind (getitem lines 6) (\<lambda>l6.
     ebind (getitem (str_split l6) 0) (\<lambda>cons.
     Inr (seed, nr, mv, fn, tn, minr, maxr, minf, maxf, cons)))))))))))"

definition sectiontitles :: "string list" where
  "sectiontitles = [''START OF DATA:'', ''START OF AC:'', ''START OF ENS:'']"

text \<open>The lines of section \<open>k\<close>: \<^verbatim>\<open>alllines[startidxs[k]:finidxs[k]]\<close>.\<close>

definition section_lines :: "string list \<Rightarrow> int list \<Rightarrow> int list \<Rightarrow> int \<Rightarrow> error + string list" where
  "section_lines alllines startidxs finidxs k =
     ebind (getitem startidxs k) (\<lambda>a.
     ebind (getitem finidxs k) (\<lambda>b. Inr (slice alllines a b)))"

definition parsepars :: "'f env \<Rightarrow> string \<Rightarrow> error + 'f pars" where
  "parsepars env parstring =
     ebind (parstr_sectionindexes env parstring sectiontitles) (\<lambda>(startidxs, finidxs).
     let alllines = splitlines parstring in
     ebind (section_lines alllines startidxs finidxs 0) (\<lambda>lines0.
     ebind (parse_data env lines0) (\<lambda>(dfile, loc, dh_vals, mv, ofile, sall, rec, app).
     ebind (section_lines alllines startidxs finidxs 1) (\<lambda>lines1.
     ebind (parse_ac env lines1) (\<lambda>(nn, sp, cm, metrics, props).
     ebind (section_lines alllines startidxs finidxs 2) (\<lambda>lines2.
     ebind (parse_ens env lines2) (\<lambda>(seed, nr, minv, fn, tn, minr, maxr, minf, maxf, cons).
     Inr \<lparr>locations = loc, dhs = dh_vals, mvdata = mv, nnears = nn, searchparams = sp,
          cluster_method = cm, acmetric = metrics, acprop = props, rseed = seed,
          nreal = nr, minvars = minv, minremove = minr, maxremove = maxr,
          minfound = minf, maxfound = maxf, datafile = dfile, outfile = ofile,
          saveall = sall, recode = rec, appendout = app, fnclus = fn, tnclus = tn,
          consensus_method = cons\<rparr>)))))))"

subsection \<open>The clustering object as \<^verbatim>\<open>main\<close> uses it\<close>

text \<open>
  \<^verbatim>\<open>sp.ACEnsemble\<close> and \<^verbatim>\<open>sp.reclass_clusters\<close> are parameters of the model. The object
  is a state \<open>'m\<close>: \<open>construct\<close> is \<^verbatim>\<open>cluster_object(**pars)\<close>, \<open>fit\<close> returns the
  state it leaves, \<open>predict\<close> returns the labels and the state, \<open>clusterings\<close> reads
  the attribute \<^verbatim>\<open>model.clusterings\<close> (one column per realization), and
  \<open>reclass_clusters\<close> is the first component of what \<^verbatim>\<open>sp.reclass_clusters\<close> returns.
\<close>

record ('m, 'f) core =
  construct :: "'f config \<Rightarrow> error + 'm"
  fit :: "'m \<Rightarrow> int \<Rightarrow> error + 'm"
  predict :: "'m \<Rightarrow> int \<Rightarrow> string \<Rightarrow> error + (int list \<times> 'm)"
  clusterings :: "'m \<Rightarrow> error + int array2"
  reclass_clusters :: "int list \<Rightarrow> int array2 \<Rightarrow> error + int array2"

text \<open>The calls \<^verbatim>\<open>main\<close> makes into the clustering package, in the order it makes them.\<close>

datatype 'f call =
    Construct "'f config"
  | Fit int
  | Predict int string
  | Reclass "int list" "int array2"

text \<open>What a run leaves on disk: the default parameter file, or the output table.\<close>

datatype 'f written =
    ParFile string string
  | Table "'f frame" string

subsection \<open>\<^verbatim>\<open>main\<close>\<close>

definition tab :: char where
  "tab = CHR 0x09"

definition newline :: char where
  "newline = CHR 0x0A"

definition defaultparlines :: "string list" where
  "defaultparlines =
    [[tab, tab] @ ''  ACEnsemble'',
     [tab, tab] @ ''  ----------'',
     [],
     ''START OF DATA:'',
     ''datafile.dat        - file with the input dataset'',
     ''0  1  2  0          - columns for dh, x, y, z data'',
     ''3  4  5  6          - columns for variables (implicit nvar)'',
     ''outfile.out         - file for clustering output'',
     ''1    1              - save all reals? recode clusters? (0=No, 1=Yes)'',
     ''1                   - append output to input file? (0=No, 1=Yes)'',
     [],
     ''START OF AC:        # autocorrelation settings'',
     ''25                  - number of nearest neighbors'',
     ''0  0  0             - search anisotropy/ ang1, ang2, ang3'',
     ''500 500 500         - range1, range2, range3'',
     ''kmeans              - cluster method: one of `kmeans`, `gmm`, `hier`'',
     ''1  2                - autocorrelation metrics (0=None, 1=Morans, 2=Getis)'',
     ''0.5 0.5             - autocorrelation props'',
     [],
     ''START OF ENS:       # ensemble settings'',
     ''523151              - random seed'',
     ''100                 - num ensemble'',
     ''-1                  - min number of variables, -1 to use all'',
     ''4  6                - final nclus, target nclus'',
     ''0.0 0.15            - min and max proportion to remove'',
     ''0.001 0.999         - min and max proportion in found clustering'',
     ''spec                - final consensus method, `spec`(tral) or `hier`(archical)'',
     []]"

text \<open>\<^verbatim>\<open>defaultparstr\<close>: every line above, each ended by a newline.\<close>

definition defaultparstr :: string where
  "defaultparstr = concat (map (\<lambda>l. l @ [newline]) defaultparlines)"

text \<open>\<^verbatim>\<open>'{}_real{}'.format(shortname, i)\<close> with \<^verbatim>\<open>shortname = 'acens'\<close>.\<close>

definition real_name :: "nat \<Rightarrow> string" where
  "real_name i = ''acens_real'' @ str_nat i"

text \<open>
  Lines 143 and 144: for each \<open>i\<close> of the range in turn, column \<open>i\<close> of the
  realizations is stored in the table under \<open>real_name i\<close>.
\<close>

fun write_reals :: "int array2 \<Rightarrow> nat list \<Rightarrow> 'f frame \<Rightarrow> error + 'f frame" where
  "write_reals cl [] data = Inr data"
| "write_reals cl (i # is) data =
     ebind (column cl i) (\<lambda>col.
     ebind (setitem data (real_name i) (map Lab col)) (write_reals cl is))"

text \<open>
  Lines 139 to 142: the realizations to save, and the call this makes. With the
  recode flag the stored realizations go through \<^verbatim>\<open>sp.reclass_clusters\<close>.
\<close>

definition pick_clusterings ::
  "('m, 'f) core \<Rightarrow> 'm \<Rightarrow> int list \<Rightarrow> bool \<Rightarrow> 'f call list \<times> (error + int array2)"
where
  "pick_clusterings c m labels rec =
     (if rec
      then (case clusterings c m of
              Inl e \<Rightarrow> ([], Inl e)
            | Inr mc \<Rightarrow> ([Reclass labels mc], reclass_clusters c labels mc))
      else ([], clusterings c m))"

text \<open>
  Lines 134 to 146, from the output table \<open>data0\<close> set up before: the calls made, and
  the table handed to \<^verbatim>\<open>write_gslib\<close> with its file name, or the exception raised.
\<close>

definition run ::
  "('m, 'f) core \<Rightarrow> 'f frame \<Rightarrow> 'f pars \<Rightarrow> 'f call list \<times> (error + 'f written)"
where
  "run c data0 ps =
     (let cfg = config.truncate ps in
      case construct c cfg of
        Inl e \<Rightarrow> ([Construct cfg], Inl e)
      | Inr m \<Rightarrow>
     (case fit c m (tnclus ps) of
        Inl e \<Rightarrow> ([Construct cfg, Fit (tnclus ps)], Inl e)
      | Inr m1 \<Rightarrow>
     (let tr = [Construct cfg, Fit (tnclus ps), Predict (fnclus ps) (consensus_method ps)] in
      case predict c m1 (fnclus ps) (consensus_method ps) of
        Inl e \<Rightarrow> (tr, Inl e)
      | Inr (labels, m2) \<Rightarrow>
     (case setitem data0 ''acens_clusters'' (map Lab labels) of
        Inl e \<Rightarrow> (tr, Inl e)
      | Inr data1 \<Rightarrow>
          if saveall ps
          then (case pick_clusterings c m2 labels (recode ps) of
                  (tr2, Inl e) \<Rightarrow> (tr @ tr2, Inl e)
                | (tr2, Inr cl) \<Rightarrow>
                    (tr @ tr2,
                     ebind (write_reals cl [0..<nat (nreal ps)] data1) (\<lambda>data2.
                     Inr (Table data2 (outfile ps)))))
          else (tr, Inr (Table data1 (outfile ps)))))))"

text \<open>
  \<^verbatim>\<open>main\<close>, from the command-line argument: without one the default parameter file is
  written as \<^verbatim>\<open>acensemble.par\<close> and the run ends; otherwise the file must exist, is
  read and parsed, and the output table starts as the input table or empty.
\<close>

definition main ::
  "'f env \<Rightarrow> ('m, 'f) core \<Rightarrow> string option \<Rightarrow> 'f call list \<times> (error + 'f written)"
where
  "main env c parfile =
     (case parfile of
        None \<Rightarrow> ([], Inr (ParFile defaultparstr ''acensemble.par''))
      | Some pf \<Rightarrow>
          if \<not> isfile env pf then ([], Inl AssertionError)
          else
            (case ebind (readparfile env pf) (parsepars env) of
               Inl e \<Rightarrow> ([], Inl e)
             | Inr ps \<Rightarrow>
                 (case (if appendout ps then read_gslib env (datafile ps) else Inr empty_frame) of
                    Inl e \<Rightarrow> ([], Inl e)
                  | Inr data0 \<Rightarrow> run c data0 ps)))"

section \<open>The clustering core, from the specification\<close>

text \<open>
  The class \<^verbatim>\<open>sp.ACEnsemble\<close> and the function \<^verbatim>\<open>sp.reclass_clusters\<close> are not among the
  sources. The definitions of this section follow the specification's component
  contracts; the numerical primitives they orchestrate stay parameters.
\<close>

subsection \<open>Primitives\<close>

text \<open>
  Modelled from the spec: the library primitives and per-run algorithms that the core
  orchestrates and that are missing from the sources. \<open>derive_seed\<close> is the
  per-realization seed, a function of the master seed and the realization index;
  \<open>member\<close> is one EnsembleMember realization on the spatial index, the
  configuration, the intermediate cluster count and its seed, failing with
  DegenerateRealizationError when its retries are exhausted; \<open>align\<close> is the
  LabelAligner; \<open>cut\<close> reduces an aligned ensemble to the requested number of groups
  by the spectral or the hierarchical strategy; \<open>min_viable\<close> is the smallest
  ensemble size that generation accepts.
\<close>

datatype consensus = Spectral | Hierarchical

record 'f spatial_index =
  points :: "'f cell array2"
  angles :: "'f list"
  ranges :: "'f list"

record prims =
  derive_seed :: "int \<Rightarrow> nat \<Rightarrow> int"
  member :: "real spatial_index \<Rightarrow> real config \<Rightarrow> int \<Rightarrow> int \<Rightarrow> error + int list"
  align :: "int list list \<Rightarrow> int list \<Rightarrow> int list list"
  cut :: "consensus \<Rightarrow> int list list \<Rightarrow> int \<Rightarrow> int list"
  min_viable :: nat

subsection \<open>SpatialIndex\<close>

text \<open>
  Modelled from the spec: \<^verbatim>\<open>SpatialIndex.build(locations, searchParams)\<close>, missing from
  the sources. The search parameters are three angles followed by three ranges; the
  build fails with InvalidGeometryError if they are malformed or any range is \<open>\<le> 0\<close>.
\<close>

definition build :: "real cell array2 \<Rightarrow> real list \<Rightarrow> error + real spatial_index" where
  "build locs sp =
     (if length sp \<noteq> 6 then Inl InvalidGeometryError
      else if list_ex (\<lambda>r. r \<le> 0) (drop 3 sp) then Inl InvalidGeometryError
      else Inr \<lparr>points = locs, angles = take 3 sp, ranges = drop 3 sp\<rparr>)"

subsection \<open>EnsembleGenerator\<close>

text \<open>
  Modelled from the spec: the gather of \<^verbatim>\<open>EnsembleGenerator.generate\<close>, missing from the
  sources. The realizations run in the order \<open>sched\<close> in which the workers complete
  them; each result is written into the slot of its realization number in a
  pre-sized slot array.
\<close>

definition run_slots ::
  "prims \<Rightarrow> real spatial_index \<Rightarrow> real config \<Rightarrow> int \<Rightarrow> nat list \<Rightarrow> (error + int list) option list"
where
  "run_slots p ix cfg tn sched =
     foldl (\<lambda>slots i. slots[i := Some (member p ix cfg tn (derive_seed p (rseed cfg) i))])
       (replicate (nat (nreal cfg)) None) sched"

text \<open>
  Modelled from the spec: the failure policy of the ensemble, missing from the
  sources. Reading the slots in realization order, a degenerate realization is
  dropped, an accepted one is kept, and any other error is fatal.
\<close>

fun gather :: "(error + int list) option list \<Rightarrow> error + int list list" where
  "gather [] = Inr []"
| "gather (None # slots) = gather slots"
| "gather (Some (Inr labels) # slots) = ebind (gather slots) (\<lambda>ens. Inr (labels # ens))"
| "gather (Some (Inl e) # slots) =
     (if e = DegenerateRealizationError then gather slots else Inl e)"

text \<open>
  Modelled from the spec: \<^verbatim>\<open>EnsembleGenerator.generate\<close>, missing from the sources. The
  ensemble holds the accepted realizations in realization order; an ensemble below
  the minimum viable size escalates to InsufficientEnsembleError.
\<close>

definition generate ::
  "prims \<Rightarrow> real spatial_index \<Rightarrow> real config \<Rightarrow> int \<Rightarrow> nat list \<Rightarrow> error + int list list"
where
  "generate p ix cfg tn sched =
     ebind (gather (run_slots p ix cfg tn sched)) (\<lambda>ens.
     if length ens < min_viable p then Inl InsufficientEnsembleError else Inr ens)"

subsection \<open>ConsensusEngine\<close>

text \<open>
  Modelled from the spec: the closed set of base cluster methods and of consensus
  methods, missing from the sources. The names are those the default parameter file
  documents: \<^verbatim>\<open>kmeans\<close>, \<^verbatim>\<open>gmm\<close>, \<^verbatim>\<open>hier\<close>, and \<^verbatim>\<open>spec\<close>, \<^verbatim>\<open>hier\<close>.
\<close>

definition cluster_methods :: "string list" where
  "cluster_methods = [''kmeans'', ''gmm'', ''hier'']"

definition consensus_of :: "string \<Rightarrow> consensus option" where
  "consensus_of name =
     (if name = ''spec'' then Some Spectral
      else if name = ''hier'' then Some Hierarchical
      else None)"

text \<open>
  Modelled from the spec: \<^verbatim>\<open>ConsensusEngine.consense(ensemble, fnclus, method)\<close>, missing
  from the sources. It fails with InsufficientEnsembleError on an empty ensemble and
  with InvalidConfigurationError on an unknown method; otherwise the ensemble,
  aligned on its first realization, is cut into \<open>fnclus\<close> groups.
\<close>

definition consense :: "prims \<Rightarrow> int list list \<Rightarrow> int \<Rightarrow> string \<Rightarrow> error + int list" where
  "consense p ens fnc name =
     (case ens of
        [] \<Rightarrow> Inl InsufficientEnsembleError
      | first # _ \<Rightarrow>
          (case consensus_of name of
             None \<Rightarrow> Inl InvalidConfigurationError
           | Some v \<Rightarrow> Inr (cut p v (align p ens first) fnc)))"

subsection \<open>The object\<close>

text \<open>
  Modelled from the spec: the state of \<^verbatim>\<open>sp.ACEnsemble\<close>, missing from the sources: its
  configuration, its spatial index and the stored ensemble (empty before \<open>fit\<close>).
\<close>

record model =
  m_config :: "real config"
  m_index :: "real spatial_index"
  m_ensemble :: "int list list"

text \<open>
  Modelled from the spec: the interface of \<^verbatim>\<open>sp.ACEnsemble\<close> and \<^verbatim>\<open>sp.reclass_clusters\<close>,
  missing from the sources. The constructor builds the spatial index and rejects an
  unknown base cluster method; \<open>fit\<close> generates and stores the ensemble; \<open>predict\<close>
  is the consensus of the stored ensemble; \<open>clusterings\<close> is the stored ensemble
  with one row per point and one column per realization; \<open>reclass_clusters\<close> recodes
  the columns of an ensemble onto the naming of the given labels.
\<close>

definition spec_construct :: "real config \<Rightarrow> error + model" where
  "spec_construct cfg =
     ebind (build (locations cfg) (searchparams cfg)) (\<lambda>ix.
     if cluster_method cfg \<in> set cluster_methods
     then Inr \<lparr>m_config = cfg, m_index = ix, m_ensemble = []\<rparr>
     else Inl InvalidConfigurationError)"

definition spec_fit :: "prims \<Rightarrow> nat list \<Rightarrow> model \<Rightarrow> int \<Rightarrow> error + model" where
  "spec_fit p sched m tn =
     ebind (generate p (m_index m) (m_config m) tn sched) (\<lambda>ens.
     Inr (m\<lparr>m_ensemble := ens\<rparr>))"

definition spec_predict :: "prims \<Rightarrow> model \<Rightarrow> int \<Rightarrow> string \<Rightarrow> error + (int list \<times> model)" where
  "spec_predict p m fnc name =
     ebind (consense p (m_ensemble m) fnc name) (\<lambda>labels. Inr (labels, m))"

definition spec_clusterings :: "model \<Rightarrow> error + int array2" where
  "spec_clusterings m = Inr (values_of (shape0 (locations (m_config m))) (m_ensemble m))"

text \<open>The columns of an array, each as the list of its values.\<close>

definition columns_of :: "'a array2 \<Rightarrow> 'a list list" where
  "columns_of a = map (\<lambda>i. map (\<lambda>r. r ! i) (rows a)) [0..<shape1 a]"

definition spec_reclass :: "prims \<Rightarrow> int list \<Rightarrow> int array2 \<Rightarrow> error + int array2" where
  "spec_reclass p labels a = Inr (values_of (shape0 a) (align p (columns_of a) labels))"

definition spec_core :: "prims \<Rightarrow> nat list \<Rightarrow> (model, real) core" where
  "spec_core p sched =
     \<lparr>construct = spec_construct,
      fit = spec_fit p sched,
      predict = spec_predict p,
      clusterings = spec_clusterings,
      reclass_clusters = spec_reclass p\<rparr>"

section \<open>A small instance\<close>

text \<open>
  An instance of the parameters for the closed examples below: a reader of plain
  decimal literals for \<^verbatim>\<open>float\<close>, a table of two points, a parameter file with
  short comments, and two-label primitives.
\<close>

fun digits_value :: "int \<Rightarrow> string \<Rightarrow> int option" where
  "digits_value acc [] = Some acc"
| "digits_value acc (c # cs) =
     (case digit_val c of None \<Rightarrow> None | Some d \<Rightarrow> digits_value (10 * acc + d) cs)"

text \<open>
  A plain decimal literal (an optional sign, digits, an optional point and digits)
  read as the number it denotes; anything else raises ValueError.
\<close>

definition read_decimal :: "string \<Rightarrow> error + real" where
  "read_decimal s =
     (let neg = (case s of [] \<Rightarrow> False | c # cs \<Rightarrow> c = CHR ''-'');
          body = (case s of [] \<Rightarrow> [] | c # cs \<Rightarrow> if c = CHR ''-'' \<or> c = CHR ''+'' then cs else s);
          ip = takeWhile (\<lambda>c. c \<noteq> CHR ''.'') body;
          fp = drop 1 (dropWhile (\<lambda>c. c \<noteq> CHR ''.'') body)
      in if ip = [] \<and> fp = [] then Inl ValueError
         else (case digits_value 0 (ip @ fp) of
                 None \<Rightarrow> Inl ValueError
               | Some n \<Rightarrow> Inr ((if neg then - 1 else 1) * of_int n / 10 ^ length fp)))"

definition example_table :: "real frame" where
  "example_table =
     \<lparr>nrows = 2,
      columns = [(''X'', [Num 0, Num 10]), (''Y'', [Num 0, Num 5]), (''A'', [Num 1, Num 2])]\<rparr>"

text \<open>
  The parameter file of the examples, with the column line of the data section, its
  flags line, the ranges line and the consensus method as arguments.
\<close>

definition example_lines :: "string \<Rightarrow> string \<Rightarrow> string \<Rightarrow> string \<Rightarrow> string list" where
  "example_lines colline flagline rangeline cons =
    [''START OF DATA:'',
     ''d.dat - input'',
     colline,
     ''3 - variables'',
     ''o.out - output'',
     flagline,
     ''0 - append'',
     ''START OF AC:'',
     ''1 - neighbours'',
     ''0 0 0 - angles'',
     rangeline,
     ''kmeans - method'',
     ''1 2     - metrics'',
     ''0.5 0.5 - props'',
     ''START OF ENS:'',
     ''7 - seed'',
     ''2 - nreal'',
     ''-1 - minvars'',
     ''2 2 - nclus'',
     ''0.0 0.5 - remove'',
     ''0.1 0.9 - found'',
     cons @ '' - consensus'']"

definition example_parstr :: "string \<Rightarrow> string \<Rightarrow> string \<Rightarrow> string \<Rightarrow> string" where
  "example_parstr colline flagline rangeline cons =
     concat (map (\<lambda>l. l @ [newline]) (example_lines colline flagline rangeline cons))"

text \<open>
  The collaborators of the examples: the sections of the files above start after
  lines 0, 7 and 14; the file system holds the table \<^verbatim>\<open>d.dat\<close> and the parameter file
  \<open>parstring\<close> under the name \<^verbatim>\<open>acens.par\<close>.
\<close>

definition example_env :: "string \<Rightarrow> real env" where
  "example_env parstring =
     \<lparr>parstr_sectionindexes = (\<lambda>s titles. Inr ([1, 8, 15], [7, 14, 22])),
      read_gslib = (\<lambda>f. if f = ''d.dat'' then Inr example_table else Inl IOError),
      readparfile = (\<lambda>f. if f = ''acens.par'' then Inr parstring else Inl IOError),
      isfile = (\<lambda>f. f = ''acens.par''),
      to_float = read_decimal\<rparr>"

text \<open>
  The aligner for labelings with the two labels 0 and 1: a realization is kept or
  has its two labels exchanged, whichever agrees with the reference on more points.
\<close>

definition agreement :: "int list \<Rightarrow> int list \<Rightarrow> nat" where
  "agreement xs ys = length (filter (\<lambda>(x, y). x = y) (zip xs ys))"

definition align2 :: "int list list \<Rightarrow> int list \<Rightarrow> int list list" where
  "align2 ens ref =
     map (\<lambda>r. let r' = map (\<lambda>l. 1 - l) r
              in if agreement r ref < agreement r' ref then r' else r) ens"

text \<open>
  The primitives of the examples: the seed of realization \<open>i\<close> is the master seed
  plus \<open>i\<close>; a realization labels point \<open>k\<close> with the parity of seed plus \<open>k\<close>; the
  cut of an aligned ensemble is its first realization.
\<close>

definition example_prims :: prims where
  "example_prims =
     \<lparr>derive_seed = (\<lambda>master i. master + int i),
      member = (\<lambda>ix cfg tn seed. Inr (map (\<lambda>k. (seed + int k) mod 2) [0..<shape0 (points ix)])),
      align = align2,
      cut = (\<lambda>v ens k. hd ens),
      min_viable = 0\<rparr>"

section \<open>Statements from the claims' words\<close>

text \<open>Parameter files of the instance: planar, with a z column, and with a drill-hole column.\<close>

definition par_2d :: string where
  "par_2d = example_parstr ''0 1 2 0 - columns'' ''1 1 - flags'' ''5 5 5 - ranges'' ''spec''"


definition par_dh :: string where
  "par_dh = example_parstr ''1 1 2 0 - columns'' ''1 1 - flags'' ''5 5 5 - ranges'' ''spec''"

text \<open>The three calls every complete run makes first, in their order.\<close>

definition calls3 :: "'f pars \<Rightarrow> 'f call list" where
  "calls3 ps = [Construct (config.truncate ps), Fit (tnclus ps),
                Predict (fnclus ps) (consensus_method ps)]"

text \<open>The parameters that \<^verbatim>\<open>parsepars\<close> returns on the planar parameter file of the instance.\<close>

definition example_pars :: "real pars" where
  "example_pars =
     \<lparr>locations = \<lparr>shape0 = 2, shape1 = 2, rows = [[Num 0, Num 0], [Num 10, Num 5]]\<rparr>,
      dhs = None,
      mvdata = \<lparr>shape0 = 2, shape1 = 1, rows = [[Num 1], [Num 2]]\<rparr>,
      nnears = 1, searchparams = [0, 0, 0, 5, 5, 5], cluster_method = ''kmeans'',
      acmetric = [1, 2], acprop = [1 / 2, 1 / 2], rseed = 7, nreal = 2, minvars = - 1,
      minremove = 0, maxremove = 1 / 2, minfound = 1 / 10, maxfound = 9 / 10,
      datafile = ''d.dat'', outfile = ''o.out'', saveall = True, recode = True,
      appendout = False, fnclus = 2, tnclus = 2, consensus_method = ''spec''\<rparr>"

text \<open>The core of the instance: the primitives above, the realizations run in index order.\<close>

definition example_core :: "(model, real) core" where
  "example_core = spec_core example_prims [0, 1]"

text \<open>The planar parameter file of the instance with an unknown consensus method.\<close>

definition par_bogus :: string where
  "par_bogus = example_parstr ''0 1 2 0 - columns'' ''1 1 - flags'' ''5 5 5 - ranges'' ''bogus''"







text \<open>The planar parameter file of the instance with \<open>fl\<close> as its line of the two flags.\<close>

definition par_flags :: "string \<Rightarrow> string" where
  "par_flags fl = example_parstr ''0 1 2 0 - columns'' fl ''5 5 5 - ranges'' ''spec''"

section \<open>Properties\<close>

subsection \<open>Sequencing\<close>

lemma ebind_Inr_iff: "ebind m f = Inr y \<longleftrightarrow> (\<exists>x. m = Inr x \<and> f x = Inr y)"
  by (cases m) (simp_all add: ebind_def)

lemma ebind_Inr [simp]: "ebind (Inr x) f = f x"
  by (simp add: ebind_def)

lemma ebind_Inl [simp]: "ebind (Inl e) f = Inl e"
  by (simp add: ebind_def)

subsection \<open>The group identifiers\<close>

text \<open>
  Claim C3. On the parameter file of the instance whose drill-hole column number is 1,
  \<^verbatim>\<open>parsepars\<close> raises TypeError: line 68 subscripts the integer \<open>dh\<close> where the data
  table was meant.
\<close>

theorem parsepars_positive_dh_raises: "parsepars (example_env par_dh) par_dh = Inl TypeError"
  unfolding par_dh_def by code_simp

subsection \<open>The run and its output table\<close>

lemma run_success:
  assumes "run c d ps = (tr, Inr w)"
  shows "\<exists>m m1 labels m2 data1 out.
           construct c (config.truncate ps) = Inr m \<and>
           fit c m (tnclus ps) = Inr m1 \<and>
           predict c m1 (fnclus ps) (consensus_method ps) = Inr (labels, m2) \<and>
           setitem d ''acens_clusters'' (map Lab labels) = Inr data1 \<and>
           w = Table out (outfile ps) \<and>
           (if saveall ps
            then \<exists>tr2 cl. pick_clusterings c m2 labels (recode ps) = (tr2, Inr cl) \<and>
                   tr = calls3 ps @ tr2 \<and>
                   write_reals cl [0..<nat (nreal ps)] data1 = Inr out
            else tr = calls3 ps \<and> out = data1)"
  using assms unfolding run_def calls3_def
  by (auto simp: Let_def ebind_Inr_iff split: sum.splits prod.splits if_splits)

lemma run_calls_prefix:
  "fst (run c d ps) \<noteq> [] \<and>
   take 3 (fst (run c d ps)) = take (length (fst (run c d ps))) (calls3 ps)"
  unfolding run_def calls3_def
  by (auto simp: Let_def split: sum.splits prod.splits if_splits)

lemma main_run:
  assumes "main env c (Some pf) = (tr, Inr w)"
  shows "\<exists>ps d. ebind (readparfile env pf) (parsepars env) = Inr ps \<and>
           (if appendout ps then read_gslib env (datafile ps) else Inr empty_frame) = Inr d \<and>
           run c d ps = (tr, Inr w)"
  using assms unfolding main_def
  by (auto split: sum.splits if_splits)

lemma setitem_Inr:
  "setitem fr name vals = Inr fr' \<longleftrightarrow>
   nrows (take_index fr (length vals)) = length vals \<and>
   fr' = put_column (take_index fr (length vals)) name vals"
  by (auto simp: setitem_def Let_def)

lemma take_index_names: "column_names (take_index fr n) = column_names fr"
  by (simp add: take_index_def column_names_def comp_def)

lemma take_index_same: "nrows fr = n \<Longrightarrow> take_index fr n = fr"
  by (auto simp: take_index_def)

lemma replaced_same:
  "name \<in> fst ` set cs \<Longrightarrow>
   filter (\<lambda>c. fst c = name) (map (\<lambda>c. if fst c = name then (name, vals) else c) cs) \<noteq> [] \<and>
   (\<forall>c \<in> set (filter (\<lambda>c. fst c = name)
                  (map (\<lambda>c. if fst c = name then (name, vals) else c) cs)). snd c = vals)"
  by (induction cs) auto

lemma replaced_other:
  "name' \<noteq> name \<Longrightarrow>
   filter (\<lambda>c. fst c = name') (map (\<lambda>c. if fst c = name then (name, vals) else c) cs) =
   filter (\<lambda>c. fst c = name') cs"
  by (induction cs) auto

lemma replaced_names: "map fst (map (\<lambda>c. if fst c = name then (name, vals) else c) cs) = map fst cs"
  by (induction cs) auto

lemma put_column_nrows: "nrows (put_column fr name vals) = nrows fr"
  by (simp add: put_column_def)

lemma put_column_same:
  "matching (put_column fr name vals) name \<noteq> [] \<and>
   (\<forall>c \<in> set (matching (put_column fr name vals) name). c = vals)"
proof (cases "name \<in> fst ` set (columns fr)")
  case True
  with replaced_same[OF True, of vals] show ?thesis
    by (auto simp: matching_def put_column_def column_names_def)
next
  case False
  then have "filter (\<lambda>c. fst c = name) (columns fr) = []"
    by (auto simp: filter_empty_conv)
  with False show ?thesis
    by (simp add: matching_def put_column_def column_names_def)
qed

lemma put_column_other:
  "name' \<noteq> name \<Longrightarrow> matching (put_column fr name vals) name' = matching fr name'"
  by (simp add: matching_def put_column_def replaced_other)

lemma put_column_names:
  "column_names (put_column fr name vals) =
     (if name \<in> set (column_names fr) then column_names fr else column_names fr @ [name])"
  by (simp add: put_column_def column_names_def replaced_names)

lemma setitem_nrows: "setitem fr name vals = Inr fr' \<Longrightarrow> nrows fr' = length vals"
  by (simp add: setitem_Inr put_column_nrows)

lemma setitem_same:
  "setitem fr name vals = Inr fr' \<Longrightarrow>
   matching fr' name \<noteq> [] \<and> (\<forall>c \<in> set (matching fr' name). c = vals)"
  using put_column_same by (simp add: setitem_Inr)

lemma setitem_other:
  "setitem fr name vals = Inr fr' \<Longrightarrow> name' \<noteq> name \<Longrightarrow> nrows fr = length vals \<Longrightarrow>
   matching fr' name' = matching fr name'"
  by (simp add: setitem_Inr put_column_other take_index_same)

lemma setitem_names:
  "setitem fr name vals = Inr fr' \<Longrightarrow>
   column_names fr' =
     (if name \<in> set (column_names fr) then column_names fr else column_names fr @ [name])"
  by (simp add: setitem_Inr put_column_names take_index_names)

lemma str_nat_nonempty: "str_nat n \<noteq> []"
  by (subst str_nat.simps) simp

lemma digit_char_inj:
  assumes "a < 10" "b < 10" "char_of (48 + a :: nat) = char_of (48 + b)"
  shows "a = b"
proof -
  from assms(3) have "(of_char (char_of (48 + a)) :: nat) = of_char (char_of (48 + b))"
    by simp
  then have "(48 + a) mod 256 = (48 + b) mod 256"
    by (simp only: of_char_of)
  with assms(1,2) show ?thesis by simp
qed

lemma str_nat_inj: "str_nat n = str_nat m \<Longrightarrow> n = m"
proof (induction n arbitrary: m rule: str_nat.induct)
  case (1 n)
  show ?case
  proof (cases "n < 10")
    case True
    then have n: "str_nat n = [char_of (48 + n)]" by (subst str_nat.simps) simp
    show ?thesis
    proof (cases "m < 10")
      case m: True
      then have "str_nat m = [char_of (48 + m)]" by (subst str_nat.simps) simp
      with n "1.prems" True m show ?thesis by (auto dest: digit_char_inj)
    next
      case False
      then have "str_nat m = str_nat (m div 10) @ [char_of (48 + m mod 10)]"
        by (subst str_nat.simps) simp
      with n "1.prems" str_nat_nonempty[of "m div 10"] show ?thesis by auto
    qed
  next
    case False
    then have n: "str_nat n = str_nat (n div 10) @ [char_of (48 + n mod 10)]"
      by (subst str_nat.simps) simp
    show ?thesis
    proof (cases "m < 10")
      case True
      then have "str_nat m = [char_of (48 + m)]" by (subst str_nat.simps) simp
      with n "1.prems" str_nat_nonempty[of "n div 10"] show ?thesis by auto
    next
      case m: False
      then have "str_nat m = str_nat (m div 10) @ [char_of (48 + m mod 10)]"
        by (subst str_nat.simps) simp
      with n "1.prems" have a: "str_nat (n div 10) = str_nat (m div 10)"
        and b: "char_of (48 + n mod 10) = (char_of (48 + m mod 10) :: char)" by auto
      from "1.IH"[OF False a] have "n div 10 = m div 10" .
      moreover from b have "n mod 10 = m mod 10" by (auto dest: digit_char_inj)
      ultimately show ?thesis by (metis div_mult_mod_eq)
    qed
  qed
qed

lemma real_name_inj: "real_name i = real_name j \<Longrightarrow> i = j"
  by (simp add: real_name_def str_nat_inj)

lemma real_name_not_clusters: "real_name i \<noteq> ''acens_clusters''"
  by (simp add: real_name_def)

lemma column_length: "column cl i = Inr col \<Longrightarrow> length col = length (rows cl)"
  by (auto simp: column_def split: if_splits)

lemma write_reals_nrows:
  "write_reals cl is data = Inr out \<Longrightarrow> is \<noteq> [] \<Longrightarrow> nrows out = length (rows cl)"
proof (induction "is" arbitrary: data)
  case Nil
  then show ?case by simp
next
  case (Cons i "is")
  from Cons.prems(1) obtain col data' where
    c: "column cl i = Inr col" and s: "setitem data (real_name i) (map Lab col) = Inr data'" and
    w: "write_reals cl is data' = Inr out"
    by (auto simp: ebind_Inr_iff)
  from s c have n: "nrows data' = length (rows cl)"
    by (simp add: setitem_nrows column_length)
  show ?case
  proof (cases "is = []")
    case True
    with w n show ?thesis by simp
  next
    case False
    from Cons.IH[OF w False] show ?thesis .
  qed
qed

lemma write_reals_frame:
  assumes "write_reals cl is data = Inr out" "nrows data = length (rows cl)"
  shows "(\<forall>name. name \<notin> real_name ` set is \<longrightarrow> matching out name = matching data name) \<and>
         (\<forall>i \<in> set is. \<exists>col. column cl i = Inr col \<and> matching out (real_name i) \<noteq> [] \<and>
            (\<forall>c \<in> set (matching out (real_name i)). c = map Lab col))"
  using assms
proof (induction "is" arbitrary: data)
  case Nil
  then show ?case by simp
next
  case (Cons i "is")
  from Cons.prems(1) obtain col data' where
    c: "column cl i = Inr col" and s: "setitem data (real_name i) (map Lab col) = Inr data'" and
    w: "write_reals cl is data' = Inr out"
    by (auto simp: ebind_Inr_iff)
  from c Cons.prems(2) have len: "nrows data = length (map Lab col)"
    by (simp add: column_length)
  from s c have n: "nrows data' = length (rows cl)"
    by (simp add: setitem_nrows column_length)
  note ih = Cons.IH[OF w n]
  have other: "matching out name = matching data name" if "name \<notin> real_name ` set (i # is)" for name
  proof -
    from that have "name \<noteq> real_name i" "name \<notin> real_name ` set is" by auto
    with ih setitem_other[OF s _ len] show ?thesis by simp
  qed
  have this_one: "\<exists>col. column cl i = Inr col \<and> matching out (real_name i) \<noteq> [] \<and>
            (\<forall>c \<in> set (matching out (real_name i)). c = map Lab col)"
  proof (cases "i \<in> set is")
    case True
    with ih show ?thesis by blast
  next
    case False
    then have "real_name i \<notin> real_name ` set is"
      by (auto dest: real_name_inj)
    with ih have "matching out (real_name i) = matching data' (real_name i)" by blast
    with setitem_same[OF s] c show ?thesis by simp
  qed
  from other this_one ih show ?case by auto
qed

subsection \<open>The instance, evaluated\<close>

lemma par_2d_parsed: "parsepars (example_env par_2d) par_2d = Inr example_pars"
  unfolding par_2d_def example_pars_def by code_simp

lemma ex_run_recode:
  "run example_core empty_frame example_pars =
     (calls3 example_pars @
        [Reclass [1, 0] \<lparr>shape0 = 2, shape1 = 2, rows = [[1, 0], [0, 1]]\<rparr>],
      Inr (Table \<lparr>nrows = 2,
                  columns = [(''acens_clusters'', [Lab 1, Lab 0]),
                             (''acens_real0'', [Lab 1, Lab 0]),
                             (''acens_real1'', [Lab 1, Lab 0])]\<rparr> ''o.out''))"
  by code_simp

lemma ex_run_raw:
  "run example_core empty_frame (example_pars\<lparr>recode := False\<rparr>) =
     (calls3 example_pars,
      Inr (Table \<lparr>nrows = 2,
                  columns = [(''acens_clusters'', [Lab 1, Lab 0]),
                             (''acens_real0'', [Lab 1, Lab 0]),
                             (''acens_real1'', [Lab 0, Lab 1])]\<rparr> ''o.out''))"
  by code_simp

lemma ex_main:
  "main (example_env par_2d) example_core (Some ''acens.par'') =
     run example_core empty_frame example_pars"
  by (simp add: main_def example_env_def par_2d_parsed[unfolded example_env_def] example_pars_def)

lemma write_reals_first:
  assumes "write_reals cl (i # is) data = Inr out" "nrows data \<noteq> 0"
  shows "nrows data = length (rows cl)"
proof -
  from assms(1) obtain col data' where
    c: "column cl i = Inr col" and s: "setitem data (real_name i) (map Lab col) = Inr data'"
    by (auto simp: ebind_Inr_iff)
  from s assms(2) have "nrows data = length col"
    by (auto simp: setitem_Inr take_index_def split: if_splits)
  with c show ?thesis by (simp add: column_length)
qed

lemma write_reals_columns:
  assumes "write_reals cl is data = Inr out"
  shows "\<forall>i \<in> set is. \<exists>col. column cl i = Inr col \<and> matching out (real_name i) \<noteq> [] \<and>
            (\<forall>c \<in> set (matching out (real_name i)). c = map Lab col)"
proof (cases "is")
  case Nil
  then show ?thesis by simp
next
  case (Cons i is')
  with assms obtain col data' where
    c: "column cl i = Inr col" and s: "setitem data (real_name i) (map Lab col) = Inr data'" and
    w: "write_reals cl is' data' = Inr out"
    by (auto simp: ebind_Inr_iff)
  from s c have n: "nrows data' = length (rows cl)"
    by (simp add: setitem_nrows column_length)
  note f = write_reals_frame[OF w n]
  have "\<exists>col. column cl i = Inr col \<and> matching out (real_name i) \<noteq> [] \<and>
            (\<forall>c \<in> set (matching out (real_name i)). c = map Lab col)"
  proof (cases "i \<in> set is'")
    case True
    with f show ?thesis by blast
  next
    case False
    then have "real_name i \<notin> real_name ` set is'"
      by (auto dest: real_name_inj)
    with f have "matching out (real_name i) = matching data' (real_name i)" by blast
    with setitem_same[OF s] c show ?thesis by simp
  qed
  with f Cons show ?thesis by auto
qed

lemma write_reals_names:
  assumes "write_reals cl is data = Inr out" "distinct is"
    "\<forall>i \<in> set is. real_name i \<notin> set (column_names data)"
  shows "column_names out = column_names data @ map real_name is"
  using assms
proof (induction "is" arbitrary: data)
  case Nil
  then show ?case by simp
next
  case (Cons i "is")
  from Cons.prems(1) obtain col data' where
    s: "setitem data (real_name i) (map Lab col) = Inr data'" and
    w: "write_reals cl is data' = Inr out"
    by (auto simp: ebind_Inr_iff)
  from setitem_names[OF s] Cons.prems(3)
  have n: "column_names data' = column_names data @ [real_name i]" by simp
  have "\<forall>j \<in> set is. real_name j \<notin> set (column_names data')"
    using Cons.prems(2,3) n by (auto dest: real_name_inj)
  from Cons.IH[OF w _ this] Cons.prems(2) n show ?case by simp
qed

lemma write_reals_label_column:
  assumes "write_reals cl is data = Inr out" "nrows data \<noteq> 0"
  shows "matching out ''acens_clusters'' = matching data ''acens_clusters''"
proof (cases "is")
  case Nil
  with assms show ?thesis by simp
next
  case (Cons i is')
  with assms(1) have "write_reals cl (i # is') data = Inr out" by simp
  from write_reals_first[OF this assms(2)] have "nrows data = length (rows cl)" .
  from write_reals_frame[OF assms(1) this]
  have f: "\<forall>name. name \<notin> real_name ` set is \<longrightarrow> matching out name = matching data name"
    by (rule conjunct1)
  have "''acens_clusters'' \<notin> real_name ` set is"
  proof
    assume "''acens_clusters'' \<in> real_name ` set is"
    then obtain j where "real_name j = ''acens_clusters''" by auto
    then show False by (simp add: real_name_not_clusters)
  qed
  with f show ?thesis by simp
qed

text \<open>
  Claim C2. A run that writes its output table has parsed the parameter file, built
  the clustering object, called \<open>fit\<close> on it with \<open>tnclus\<close>, and then called \<open>predict\<close>
  on the fitted object with \<open>fnclus\<close> and the consensus method of the file, in this
  order; for a labeling of at least one point, every column \<^verbatim>\<open>acens_clusters\<close> of
  the table written holds the labels \<open>predict\<close> returned. Whether a run succeeds or
  not, its first three calls, as far as it gets, are these three in this order.
\<close>

theorem fit_then_predict:
  "(\<forall>tr w. main env c (Some pf) = (tr, Inr w) \<longrightarrow>
      (\<exists>ps m m1 labels m2 out.
         ebind (readparfile env pf) (parsepars env) = Inr ps \<and>
         construct c (config.truncate ps) = Inr m \<and>
         fit c m (tnclus ps) = Inr m1 \<and>
         predict c m1 (fnclus ps) (consensus_method ps) = Inr (labels, m2) \<and>
         take 3 tr = [Construct (config.truncate ps), Fit (tnclus ps),
                      Predict (fnclus ps) (consensus_method ps)] \<and>
         w = Table out (outfile ps) \<and>
         (labels \<noteq> [] \<longrightarrow>
            matching out ''acens_clusters'' \<noteq> [] \<and>
            (\<forall>col \<in> set (matching out ''acens_clusters''). col = map Lab labels)))) \<and>
   (\<forall>d ps. take 3 (fst (run c d ps)) =
        take (length (fst (run c d ps)))
          [Construct (config.truncate ps), Fit (tnclus ps),
           Predict (fnclus ps) (consensus_method ps)])"
proof (intro conjI allI impI)
  fix tr w
  assume a: "main env c (Some pf) = (tr, Inr w)"
  from main_run[OF a] obtain ps d where
    p: "ebind (readparfile env pf) (parsepars env) = Inr ps" and
    r: "run c d ps = (tr, Inr w)" by blast
  from run_success[OF r] obtain m m1 labels m2 data1 out where
    c: "construct c (config.truncate ps) = Inr m" "fit c m (tnclus ps) = Inr m1"
       "predict c m1 (fnclus ps) (consensus_method ps) = Inr (labels, m2)" and
    s: "setitem d ''acens_clusters'' (map Lab labels) = Inr data1" and
    w: "w = Table out (outfile ps)" and
    o: "if saveall ps
        then \<exists>tr2 cl. pick_clusterings c m2 labels (recode ps) = (tr2, Inr cl) \<and>
               tr = calls3 ps @ tr2 \<and>
               write_reals cl [0..<nat (nreal ps)] data1 = Inr out
        else tr = calls3 ps \<and> out = data1"
    by blast
  from o have t: "take 3 tr = [Construct (config.truncate ps), Fit (tnclus ps),
                      Predict (fnclus ps) (consensus_method ps)]"
    by (auto simp: calls3_def split: if_splits)
  have l: "matching out ''acens_clusters'' \<noteq> [] \<and>
            (\<forall>col \<in> set (matching out ''acens_clusters''). col = map Lab labels)"
    if ne: "labels \<noteq> []"
  proof -
    from s ne have n: "nrows data1 \<noteq> 0" by (simp add: setitem_nrows)
    have "matching out ''acens_clusters'' = matching data1 ''acens_clusters''"
    proof (cases "saveall ps")
      case True
      with o obtain cl where "write_reals cl [0..<nat (nreal ps)] data1 = Inr out" by auto
      from write_reals_label_column[OF this n] show ?thesis .
    next
      case False
      with o show ?thesis by simp
    qed
    with setitem_same[OF s] show ?thesis by simp
  qed
  show "\<exists>ps m m1 labels m2 out.
         ebind (readparfile env pf) (parsepars env) = Inr ps \<and>
         construct c (config.truncate ps) = Inr m \<and>
         fit c m (tnclus ps) = Inr m1 \<and>
         predict c m1 (fnclus ps) (consensus_method ps) = Inr (labels, m2) \<and>
         take 3 tr = [Construct (config.truncate ps), Fit (tnclus ps),
                      Predict (fnclus ps) (consensus_method ps)] \<and>
         w = Table out (outfile ps) \<and>
         (labels \<noteq> [] \<longrightarrow>
            matching out ''acens_clusters'' \<noteq> [] \<and>
            (\<forall>col \<in> set (matching out ''acens_clusters''). col = map Lab labels))"
    apply (rule exI[of _ ps], rule exI[of _ m], rule exI[of _ m1])
    apply (rule exI[of _ labels], rule exI[of _ m2], rule exI[of _ out])
    using p c t w l by simp
next
  fix d ps
  from run_calls_prefix[of c d ps]
  show "take 3 (fst (run c d ps)) =
        take (length (fst (run c d ps)))
          [Construct (config.truncate ps), Fit (tnclus ps),
           Predict (fnclus ps) (consensus_method ps)]"
    by (simp add: calls3_def)
qed

theorem fit_then_predict_witness:
  "main (example_env par_2d) example_core (Some ''acens.par'') =
     (calls3 example_pars @
        [Reclass [1, 0] \<lparr>shape0 = 2, shape1 = 2, rows = [[1, 0], [0, 1]]\<rparr>],
      Inr (Table \<lparr>nrows = 2,
                  columns = [(''acens_clusters'', [Lab 1, Lab 0]),
                             (''acens_real0'', [Lab 1, Lab 0]),
                             (''acens_real1'', [Lab 1, Lab 0])]\<rparr> ''o.out'')) \<and>
   take 3 (calls3 example_pars @
        [Reclass [1, 0] \<lparr>shape0 = 2, shape1 = 2, rows = [[1, 0], [0, 1]]\<rparr>]) =
     [Construct (config.truncate example_pars), Fit 2, Predict 2 ''spec'']"
proof -
  let ?E = "example_env par_2d"
  have m: "main ?E example_core (Some ''acens.par'') =
     (calls3 example_pars @
        [Reclass [1, 0] \<lparr>shape0 = 2, shape1 = 2, rows = [[1, 0], [0, 1]]\<rparr>],
      Inr (Table \<lparr>nrows = 2,
                  columns = [(''acens_clusters'', [Lab 1, Lab 0]),
                             (''acens_real0'', [Lab 1, Lab 0]),
                             (''acens_real1'', [Lab 1, Lab 0])]\<rparr> ''o.out''))"
    by (simp only: ex_main ex_run_recode)
  have p: "ebind (readparfile ?E ''acens.par'') (parsepars ?E) = Inr example_pars"
    using par_2d_parsed by (simp add: example_env_def)
  from fit_then_predict[of ?E example_core "''acens.par''", THEN conjunct1, rule_format, OF m]
  obtain ps where
    "ebind (readparfile ?E ''acens.par'') (parsepars ?E) = Inr ps"
    "take 3 (calls3 example_pars @
        [Reclass [1, 0] \<lparr>shape0 = 2, shape1 = 2, rows = [[1, 0], [0, 1]]\<rparr>]) =
       [Construct (config.truncate ps), Fit (tnclus ps), Predict (fnclus ps) (consensus_method ps)]"
    by blast
  with p have "take 3 (calls3 example_pars @
        [Reclass [1, 0] \<lparr>shape0 = 2, shape1 = 2, rows = [[1, 0], [0, 1]]\<rparr>]) =
     [Construct (config.truncate example_pars), Fit 2, Predict 2 ''spec'']"
    by (simp add: example_pars_def)
  with m show ?thesis by blast
qed

subsection \<open>The locations array\<close>














subsection \<open>The autocorrelation proportions\<close>






















subsection \<open>The realization columns\<close>

lemma pick_clusterings_Inr:
  "pick_clusterings c m labels rec = (tr2, Inr cl) \<Longrightarrow>
   (if rec then \<exists>mc. clusterings c m = Inr mc \<and> reclass_clusters c labels mc = Inr cl \<and>
                  tr2 = [Reclass labels mc]
    else clusterings c m = Inr cl \<and> tr2 = [])"
  by (auto simp: pick_clusterings_def split: if_splits sum.splits)

lemma ex_stored_column:
  "ebind (construct example_core (config.truncate example_pars)) (\<lambda>m.
   ebind (fit example_core m (tnclus example_pars)) (\<lambda>m1.
   ebind (predict example_core m1 (fnclus example_pars) (consensus_method example_pars)) (\<lambda>(labels, m2).
   ebind (clusterings example_core m2) (\<lambda>stored. column stored 1)))) = Inr [0, 1]"
  by code_simp

text \<open>
  Claim C7. A run with the save-all flag that writes its output table has stored,
  for each realization index \<open>i\<close> below \<open>nreal\<close> in ascending order, column \<open>i\<close> of
  an array \<open>cl\<close> under the name \<^verbatim>\<open>acens_real\<close>\<open>i\<close>: every column of that name in the
  table written holds exactly these values, and if none of these names was in the
  table before, the table ends with exactly these \<open>nreal\<close> columns in index order.
  The array \<open>cl\<close> is the stored ensemble \<^verbatim>\<open>model.clusterings\<close> only without the recode
  flag; with it, \<open>cl\<close> is what \<^verbatim>\<open>reclass_clusters\<close> returns on the final labels and
  the stored ensemble.
\<close>

theorem realization_columns:
  "\<forall>tr w. main env c (Some pf) = (tr, Inr w) \<longrightarrow>
     (\<exists>ps d m m1 labels m2 data1 out.
        ebind (readparfile env pf) (parsepars env) = Inr ps \<and>
        (if appendout ps then read_gslib env (datafile ps) else Inr empty_frame) = Inr d \<and>
        construct c (config.truncate ps) = Inr m \<and>
        fit c m (tnclus ps) = Inr m1 \<and>
        predict c m1 (fnclus ps) (consensus_method ps) = Inr (labels, m2) \<and>
        setitem d ''acens_clusters'' (map Lab labels) = Inr data1 \<and>
        w = Table out (outfile ps) \<and>
        (saveall ps \<longrightarrow>
           (\<exists>cl. (if recode ps
                  then \<exists>mc. clusterings c m2 = Inr mc \<and> reclass_clusters c labels mc = Inr cl
                  else clusterings c m2 = Inr cl) \<and>
                 (\<forall>i < nat (nreal ps). \<exists>col.
                    column cl i = Inr col \<and> matching out (real_name i) \<noteq> [] \<and>
                    (\<forall>x \<in> set (matching out (real_name i)). x = map Lab col)) \<and>
                 ((\<forall>i < nat (nreal ps). real_name i \<notin> set (column_names data1)) \<longrightarrow>
                    column_names out =
                      column_names data1 @ map real_name [0..<nat (nreal ps)]))))"
proof (intro allI impI)
  fix tr w
  assume a: "main env c (Some pf) = (tr, Inr w)"
  from main_run[OF a] obtain ps d where
    p: "ebind (readparfile env pf) (parsepars env) = Inr ps" and
    d: "(if appendout ps then read_gslib env (datafile ps) else Inr empty_frame) = Inr d" and
    r: "run c d ps = (tr, Inr w)" by blast
  from run_success[OF r] obtain m m1 labels m2 data1 out where
    c: "construct c (config.truncate ps) = Inr m" "fit c m (tnclus ps) = Inr m1"
       "predict c m1 (fnclus ps) (consensus_method ps) = Inr (labels, m2)" and
    s: "setitem d ''acens_clusters'' (map Lab labels) = Inr data1" and
    w: "w = Table out (outfile ps)" and
    o: "if saveall ps
        then \<exists>tr2 cl. pick_clusterings c m2 labels (recode ps) = (tr2, Inr cl) \<and>
               tr = calls3 ps @ tr2 \<and>
               write_reals cl [0..<nat (nreal ps)] data1 = Inr out
        else tr = calls3 ps \<and> out = data1"
    by blast
  have sv: "\<exists>cl. (if recode ps
                  then \<exists>mc. clusterings c m2 = Inr mc \<and> reclass_clusters c labels mc = Inr cl
                  else clusterings c m2 = Inr cl) \<and>
                 (\<forall>i < nat (nreal ps). \<exists>col.
                    column cl i = Inr col \<and> matching out (real_name i) \<noteq> [] \<and>
                    (\<forall>x \<in> set (matching out (real_name i)). x = map Lab col)) \<and>
                 ((\<forall>i < nat (nreal ps). real_name i \<notin> set (column_names data1)) \<longrightarrow>
                    column_names out =
                      column_names data1 @ map real_name [0..<nat (nreal ps)])"
    if "saveall ps"
  proof -
    from that o obtain tr2 cl where
      k: "pick_clusterings c m2 labels (recode ps) = (tr2, Inr cl)" and
      wr: "write_reals cl [0..<nat (nreal ps)] data1 = Inr out"
      by auto
    from pick_clusterings_Inr[OF k]
    have 1: "if recode ps
             then \<exists>mc. clusterings c m2 = Inr mc \<and> reclass_clusters c labels mc = Inr cl
             else clusterings c m2 = Inr cl"
      by (auto split: if_splits)
    from write_reals_columns[OF wr]
    have 2: "\<forall>i < nat (nreal ps). \<exists>col.
                    column cl i = Inr col \<and> matching out (real_name i) \<noteq> [] \<and>
                    (\<forall>x \<in> set (matching out (real_name i)). x = map Lab col)"
      by simp
    have 3: "column_names out = column_names data1 @ map real_name [0..<nat (nreal ps)]"
      if "\<forall>i < nat (nreal ps). real_name i \<notin> set (column_names data1)"
      using write_reals_names[OF wr] that by simp
    from 1 2 3 show ?thesis by blast
  qed
  show "\<exists>ps d m m1 labels m2 data1 out.
        ebind (readparfile env pf) (parsepars env) = Inr ps \<and>
        (if appendout ps then read_gslib env (datafile ps) else Inr empty_frame) = Inr d \<and>
        construct c (config.truncate ps) = Inr m \<and>
        fit c m (tnclus ps) = Inr m1 \<and>
        predict c m1 (fnclus ps) (consensus_method ps) = Inr (labels, m2) \<and>
        setitem d ''acens_clusters'' (map Lab labels) = Inr data1 \<and>
        w = Table out (outfile ps) \<and>
        (saveall ps \<longrightarrow>
           (\<exists>cl. (if recode ps
                  then \<exists>mc. clusterings c m2 = Inr mc \<and> reclass_clusters c labels mc = Inr cl
                  else clusterings c m2 = Inr cl) \<and>
                 (\<forall>i < nat (nreal ps). \<exists>col.
                    column cl i = Inr col \<and> matching out (real_name i) \<noteq> [] \<and>
                    (\<forall>x \<in> set (matching out (real_name i)). x = map Lab col)) \<and>
                 ((\<forall>i < nat (nreal ps). real_name i \<notin> set (column_names data1)) \<longrightarrow>
                    column_names out =
                      column_names data1 @ map real_name [0..<nat (nreal ps)])))"
  proof (intro exI conjI)
    show "ebind (readparfile env pf) (parsepars env) = Inr ps" by (rule p)
    show "(if appendout ps then read_gslib env (datafile ps) else Inr empty_frame) = Inr d"
      by (rule d)
    show "construct c (config.truncate ps) = Inr m" by (rule c(1))
    show "fit c m (tnclus ps) = Inr m1" by (rule c(2))
    show "predict c m1 (fnclus ps) (consensus_method ps) = Inr (labels, m2)" by (rule c(3))
    show "setitem d ''acens_clusters'' (map Lab labels) = Inr data1" by (rule s)
    show "w = Table out (outfile ps)" by (rule w)
    show "saveall ps \<longrightarrow>
           (\<exists>cl. (if recode ps
                  then \<exists>mc. clusterings c m2 = Inr mc \<and> reclass_clusters c labels mc = Inr cl
                  else clusterings c m2 = Inr cl) \<and>
                 (\<forall>i < nat (nreal ps). \<exists>col.
                    column cl i = Inr col \<and> matching out (real_name i) \<noteq> [] \<and>
                    (\<forall>x \<in> set (matching out (real_name i)). x = map Lab col)) \<and>
                 ((\<forall>i < nat (nreal ps). real_name i \<notin> set (column_names data1)) \<longrightarrow>
                    column_names out =
                      column_names data1 @ map real_name [0..<nat (nreal ps)]))"
      using sv by blast
  qed
qed

theorem realization_columns_witness:
  "main (example_env par_2d) example_core (Some ''acens.par'') =
     (calls3 example_pars @
        [Reclass [1, 0] \<lparr>shape0 = 2, shape1 = 2, rows = [[1, 0], [0, 1]]\<rparr>],
      Inr (Table \<lparr>nrows = 2,
                  columns = [(''acens_clusters'', [Lab 1, Lab 0]),
                             (''acens_real0'', [Lab 1, Lab 0]),
                             (''acens_real1'', [Lab 1, Lab 0])]\<rparr> ''o.out'')) \<and>
   matching (\<lparr>nrows = 2,
                  columns = [(''acens_clusters'', [Lab 1, Lab 0]),
                             (''acens_real0'', [Lab 1, Lab 0]),
                             (''acens_real1'', [Lab 1, Lab 0])]\<rparr> :: real frame) (real_name 1) \<noteq> []"
proof -
  let ?E = "example_env par_2d"
  let ?T = "\<lparr>nrows = 2,
                  columns = [(''acens_clusters'', [Lab 1, Lab 0]),
                             (''acens_real0'', [Lab 1, Lab 0]),
                             (''acens_real1'', [Lab 1, Lab 0])]\<rparr> :: real frame"
  have m: "main ?E example_core (Some ''acens.par'') =
     (calls3 example_pars @
        [Reclass [1, 0] \<lparr>shape0 = 2, shape1 = 2, rows = [[1, 0], [0, 1]]\<rparr>],
      Inr (Table ?T ''o.out''))"
    by (simp only: ex_main ex_run_recode)
  have p: "ebind (readparfile ?E ''acens.par'') (parsepars ?E) = Inr example_pars"
    using par_2d_parsed by (simp add: example_env_def)
  from realization_columns[of ?E example_core "''acens.par''", rule_format, OF m]
  obtain ps d mm m1 labels m2 data1 out where
    1: "ebind (readparfile ?E ''acens.par'') (parsepars ?E) = Inr ps" and
    2: "Table ?T ''o.out'' = Table out (outfile ps)" and
    3: "saveall ps \<longrightarrow>
           (\<exists>cl. (if recode ps
                  then \<exists>mc. clusterings example_core m2 = Inr mc \<and>
                         reclass_clusters example_core labels mc = Inr cl
                  else clusterings example_core m2 = Inr cl) \<and>
                 (\<forall>i < nat (nreal ps). \<exists>col.
                    column cl i = Inr col \<and> matching out (real_name i) \<noteq> [] \<and>
                    (\<forall>x \<in> set (matching out (real_name i)). x = map Lab col)) \<and>
                 ((\<forall>i < nat (nreal ps).
                      real_name i \<notin> set (column_names (data1 :: real frame))) \<longrightarrow>
                    column_names out =
                      column_names data1 @ map real_name [0..<nat (nreal ps)]))"
    by (elim exE conjE) (rule that; assumption)
  from 1 p have ps: "ps = example_pars" by simp
  from 2 have out: "out = ?T" by simp
  have sv: "saveall ps" and n: "(1::nat) < nat (nreal ps)"
    by (simp_all add: ps example_pars_def)
  from 3 sv have "\<exists>cl. (if recode ps
                  then \<exists>mc. clusterings example_core m2 = Inr mc \<and>
                         reclass_clusters example_core labels mc = Inr cl
                  else clusterings example_core m2 = Inr cl) \<and>
                 (\<forall>i < nat (nreal ps). \<exists>col.
                    column cl i = Inr col \<and> matching out (real_name i) \<noteq> [] \<and>
                    (\<forall>x \<in> set (matching out (real_name i)). x = map Lab col)) \<and>
                 ((\<forall>i < nat (nreal ps).
                      real_name i \<notin> set (column_names (data1 :: real frame))) \<longrightarrow>
                    column_names out =
                      column_names data1 @ map real_name [0..<nat (nreal ps)])"
    by (rule mp)
  then obtain cl where
    c: "\<forall>i < nat (nreal ps). \<exists>col.
        column cl i = Inr col \<and> matching out (real_name i) \<noteq> [] \<and>
        (\<forall>x \<in> set (matching out (real_name i)). x = map Lab col)"
    by (elim exE conjE) (rule that)
  from c n have "matching out (real_name 1) \<noteq> []" by blast
  with out have "matching ?T (real_name 1) \<noteq> []" by simp
  with m show ?thesis by (rule conjI)
qed

text \<open>
  With both flags set, as in the default parameter file, the column written for
  realization 1 is not column 1 of the stored ensemble: the instance writes the
  recoded labels 1, 0 where the stored realization is 0, 1.
\<close>

theorem realization_columns_recoded:
  "main (example_env par_2d) example_core (Some ''acens.par'') =
     (calls3 example_pars @
        [Reclass [1, 0] \<lparr>shape0 = 2, shape1 = 2, rows = [[1, 0], [0, 1]]\<rparr>],
      Inr (Table \<lparr>nrows = 2,
                  columns = [(''acens_clusters'', [Lab 1, Lab 0]),
                             (''acens_real0'', [Lab 1, Lab 0]),
                             (''acens_real1'', [Lab 1, Lab 0])]\<rparr> ''o.out'')) \<and>
   parsepars (example_env par_2d) par_2d = Inr example_pars \<and>
   saveall example_pars \<and>
   matching (\<lparr>nrows = 2,
                  columns = [(''acens_clusters'', [Lab 1, Lab 0]),
                             (''acens_real0'', [Lab 1, Lab 0]),
                             (''acens_real1'', [Lab 1, Lab 0])]\<rparr> :: real frame) (real_name 1) = [[Lab 1, Lab 0]] \<and>
   ebind (construct example_core (config.truncate example_pars)) (\<lambda>m.
   ebind (fit example_core m (tnclus example_pars)) (\<lambda>m1.
   ebind (predict example_core m1 (fnclus example_pars) (consensus_method example_pars))
     (\<lambda>(labels, m2).
   ebind (clusterings example_core m2) (\<lambda>stored. column stored 1)))) = Inr [0, 1]"
proof -
  have a: "main (example_env par_2d) example_core (Some ''acens.par'') =
     (calls3 example_pars @
        [Reclass [1, 0] \<lparr>shape0 = 2, shape1 = 2, rows = [[1, 0], [0, 1]]\<rparr>],
      Inr (Table \<lparr>nrows = 2,
                  columns = [(''acens_clusters'', [Lab 1, Lab 0]),
                             (''acens_real0'', [Lab 1, Lab 0]),
                             (''acens_real1'', [Lab 1, Lab 0])]\<rparr> ''o.out''))"
    by (simp only: ex_main ex_run_recode)
  have b: "matching (\<lparr>nrows = 2,
                  columns = [(''acens_clusters'', [Lab 1, Lab 0]),
                             (''acens_real0'', [Lab 1, Lab 0]),
                             (''acens_real1'', [Lab 1, Lab 0])]\<rparr> :: real frame) (real_name 1) = [[Lab 1, Lab 0]]"
    by code_simp
  have c: "saveall example_pars" by (simp add: example_pars_def)
  from a par_2d_parsed c b ex_stored_column show ?thesis by (intro conjI)
qed

subsection \<open>The recode flag\<close>

lemma truncate_recode [simp]: "config.truncate (ps\<lparr>recode := b\<rparr>) = config.truncate ps"
  by (simp add: config.truncate_def)

lemma run_recode_unused:
  "\<not> saveall ps \<Longrightarrow> run c d (ps\<lparr>recode := b\<rparr>) = run c d ps"
  by (simp add: run_def Let_def split: sum.splits prod.splits)

lemma pick_clusterings_calls:
  "pick_clusterings c m labels rec = (tr2, r) \<Longrightarrow> Reclass l a \<in> set tr2 \<Longrightarrow> rec"
  by (auto simp: pick_clusterings_def split: if_splits sum.splits)

lemma run_reclass:
  assumes "Reclass l a \<in> set (fst (run c d ps))"
  shows "saveall ps \<and> recode ps"
  using assms unfolding run_def
  by (auto simp: Let_def dest: pick_clusterings_calls split: sum.splits prod.splits if_splits)

lemma main_parsed:
  assumes "isfile env pf" "ebind (readparfile env pf) (parsepars env) = Inr ps"
  shows "main env c (Some pf) =
           (case (if appendout ps then read_gslib env (datafile ps) else Inr empty_frame) of
              Inl e \<Rightarrow> ([], Inl e)
            | Inr d \<Rightarrow> run c d ps)"
  using assms by (simp add: main_def)

lemma main_calls:
  assumes "x \<in> set (fst (main env c (Some pf)))"
  shows "\<exists>ps d. ebind (readparfile env pf) (parsepars env) = Inr ps \<and>
           x \<in> set (fst (run c d ps))"
  using assms unfolding main_def
  by (auto split: sum.splits if_splits)

lemma par_flags_parsed:
  "ebind (readparfile (example_env (par_flags ''0 1 - flags'')) ''acens.par'')
     (parsepars (example_env (par_flags ''0 1 - flags''))) =
   Inr (example_pars\<lparr>saveall := False\<rparr>)"
  "ebind (readparfile (example_env (par_flags ''0 0 - flags'')) ''acens.par'')
     (parsepars (example_env (par_flags ''0 0 - flags''))) =
   Inr (example_pars\<lparr>saveall := False, recode := False\<rparr>)"
  "ebind (readparfile (example_env (par_flags ''1 0 - flags'')) ''acens.par'')
     (parsepars (example_env (par_flags ''1 0 - flags''))) =
   Inr (example_pars\<lparr>recode := False\<rparr>)"
  "ebind (readparfile (example_env (par_flags ''1 1 - flags'')) ''acens.par'')
     (parsepars (example_env (par_flags ''1 1 - flags''))) =
   Inr example_pars"
  unfolding par_flags_def example_pars_def by code_simp+

lemma example_main:
  assumes "ebind (readparfile (example_env s) ''acens.par'') (parsepars (example_env s)) = Inr ps"
    "\<not> appendout ps"
  shows "main (example_env s) c (Some ''acens.par'') = run c empty_frame ps"
proof -
  have "isfile (example_env s) ''acens.par''" by (simp add: example_env_def)
  with assms show ?thesis by (simp add: main_parsed)
qed

lemma ex_run_nosave:
  "run example_core empty_frame (example_pars\<lparr>saveall := False\<rparr>) =
     (calls3 example_pars,
      Inr (Table \<lparr>nrows = 2, columns = [(''acens_clusters'', [Lab 1, Lab 0])]\<rparr> ''o.out''))"
  by code_simp

text \<open>
  Claim C9. The recode flag is read only under the save-all flag: a run whose
  parameters do not set save-all makes the same calls and leaves the same output
  whatever its recode flag is, so two parameter files that parse alike but for the
  recode flag, neither setting save-all, run alike; \<^verbatim>\<open>reclass_clusters\<close> is called
  only in a run whose parameter file sets both flags. Under the save-all flag the
  recode flag does change the output: the instance writes other realization columns
  with it than without it.
\<close>

theorem recode_needs_saveall:
  "(\<forall>d ps b. \<not> saveall ps \<longrightarrow> run c d (ps\<lparr>recode := b\<rparr>) = run c d ps) \<and>
   (\<forall>env1 env2 pf1 pf2 ps b.
      isfile env1 pf1 \<and> isfile env2 pf2 \<and> read_gslib env1 = read_gslib env2 \<and>
      ebind (readparfile env1 pf1) (parsepars env1) = Inr ps \<and>
      ebind (readparfile env2 pf2) (parsepars env2) = Inr (ps\<lparr>recode := b\<rparr>) \<and>
      \<not> saveall ps \<longrightarrow>
      main env1 c (Some pf1) = main env2 c (Some pf2)) \<and>
   (\<forall>env pf l a. Reclass l a \<in> set (fst (main env c (Some pf))) \<longrightarrow>
      (\<exists>ps. ebind (readparfile env pf) (parsepars env) = Inr ps \<and> saveall ps \<and> recode ps)) \<and>
   (\<exists>ps. ebind (readparfile (example_env (par_flags ''1 1 - flags'')) ''acens.par'')
           (parsepars (example_env (par_flags ''1 1 - flags''))) = Inr ps \<and>
         ebind (readparfile (example_env (par_flags ''1 0 - flags'')) ''acens.par'')
           (parsepars (example_env (par_flags ''1 0 - flags''))) = Inr (ps\<lparr>recode := False\<rparr>) \<and>
         saveall ps \<and> recode ps \<and>
         snd (main (example_env (par_flags ''1 1 - flags'')) example_core (Some ''acens.par'')) \<noteq>
         snd (main (example_env (par_flags ''1 0 - flags'')) example_core (Some ''acens.par'')))"
proof (intro conjI allI impI)
  fix d ps b
  assume "\<not> saveall (ps :: 'a pars)"
  then show "run c d (ps\<lparr>recode := b\<rparr>) = run c d ps" by (rule run_recode_unused)
next
  fix env1 env2 :: "'a env" and pf1 pf2 ps b
  assume a: "isfile env1 pf1 \<and> isfile env2 pf2 \<and> read_gslib env1 = read_gslib env2 \<and>
      ebind (readparfile env1 pf1) (parsepars env1) = Inr ps \<and>
      ebind (readparfile env2 pf2) (parsepars env2) = Inr (ps\<lparr>recode := b\<rparr>) \<and>
      \<not> saveall ps"
  then have 1: "main env1 c (Some pf1) =
           (case (if appendout ps then read_gslib env1 (datafile ps) else Inr empty_frame) of
              Inl e \<Rightarrow> ([], Inl e)
            | Inr d \<Rightarrow> run c d ps)"
    by (simp add: main_parsed)
  from a have 2: "main env2 c (Some pf2) =
           (case (if appendout ps then read_gslib env1 (datafile ps) else Inr empty_frame) of
              Inl e \<Rightarrow> ([], Inl e)
            | Inr d \<Rightarrow> run c d (ps\<lparr>recode := b\<rparr>))"
    by (simp add: main_parsed)
  from a have r: "run c d (ps\<lparr>recode := b\<rparr>) = run c d ps" for d
    by (simp add: run_recode_unused)
  show "main env1 c (Some pf1) = main env2 c (Some pf2)"
    by (simp only: 1 2 r)
next
  fix env :: "'a env" and pf l a
  assume "Reclass l a \<in> set (fst (main env c (Some pf)))"
  from main_calls[OF this] obtain ps d where
    p: "ebind (readparfile env pf) (parsepars env) = Inr ps" and
    r: "Reclass l a \<in> set (fst (run c d ps))"
    by blast
  from run_reclass[OF r] p
  show "\<exists>ps. ebind (readparfile env pf) (parsepars env) = Inr ps \<and> saveall ps \<and> recode ps"
    by blast
next
  have f: "saveall example_pars" "recode example_pars" "\<not> appendout example_pars"
    by (simp_all add: example_pars_def)
  have m1: "main (example_env (par_flags ''1 1 - flags'')) example_core (Some ''acens.par'') =
      run example_core empty_frame example_pars"
    using par_flags_parsed(4) f(3) by (rule example_main)
  have m0: "main (example_env (par_flags ''1 0 - flags'')) example_core (Some ''acens.par'') =
      run example_core empty_frame (example_pars\<lparr>recode := False\<rparr>)"
    using par_flags_parsed(3) by (rule example_main) (simp add: f)
  have "snd (main (example_env (par_flags ''1 1 - flags'')) example_core (Some ''acens.par'')) \<noteq>
        snd (main (example_env (par_flags ''1 0 - flags'')) example_core (Some ''acens.par''))"
    unfolding m1 m0 ex_run_recode ex_run_raw by simp
  with par_flags_parsed(3,4) f
  show "\<exists>ps. ebind (readparfile (example_env (par_flags ''1 1 - flags'')) ''acens.par'')
           (parsepars (example_env (par_flags ''1 1 - flags''))) = Inr ps \<and>
         ebind (readparfile (example_env (par_flags ''1 0 - flags'')) ''acens.par'')
           (parsepars (example_env (par_flags ''1 0 - flags''))) = Inr (ps\<lparr>recode := False\<rparr>) \<and>
         saveall ps \<and> recode ps \<and>
         snd (main (example_env (par_flags ''1 1 - flags'')) example_core (Some ''acens.par'')) \<noteq>
         snd (main (example_env (par_flags ''1 0 - flags'')) example_core (Some ''acens.par''))"
    by blast
qed

theorem recode_needs_saveall_witness:
  "main (example_env (par_flags ''0 1 - flags'')) example_core (Some ''acens.par'') =
     (calls3 example_pars,
      Inr (Table \<lparr>nrows = 2, columns = [(''acens_clusters'', [Lab 1, Lab 0])]\<rparr> ''o.out'')) \<and>
   main (example_env (par_flags ''0 0 - flags'')) example_core (Some ''acens.par'') =
     (calls3 example_pars,
      Inr (Table \<lparr>nrows = 2, columns = [(''acens_clusters'', [Lab 1, Lab 0])]\<rparr> ''o.out''))"
proof -
  let ?E1 = "example_env (par_flags ''0 1 - flags'')"
  let ?E0 = "example_env (par_flags ''0 0 - flags'')"
  let ?ps = "example_pars\<lparr>saveall := False\<rparr>"
  have n: "\<not> appendout ?ps" "\<not> saveall ?ps" by (simp_all add: example_pars_def)
  have m1: "main ?E1 example_core (Some ''acens.par'') =
     (calls3 example_pars,
      Inr (Table \<lparr>nrows = 2, columns = [(''acens_clusters'', [Lab 1, Lab 0])]\<rparr> ''o.out''))"
    by (simp only: example_main[OF par_flags_parsed(1) n(1)] ex_run_nosave)
  have h: "isfile ?E1 ''acens.par'' \<and> isfile ?E0 ''acens.par'' \<and>
      read_gslib ?E1 = read_gslib ?E0 \<and>
      ebind (readparfile ?E1 ''acens.par'') (parsepars ?E1) = Inr ?ps \<and>
      ebind (readparfile ?E0 ''acens.par'') (parsepars ?E0) = Inr (?ps\<lparr>recode := False\<rparr>) \<and>
      \<not> saveall ?ps"
    using par_flags_parsed(1,2) n(2) by (simp add: example_env_def)
  from recode_needs_saveall[of example_core, THEN conjunct2, THEN conjunct1, rule_format, OF h]
  have "main ?E1 example_core (Some ''acens.par'') = main ?E0 example_core (Some ''acens.par'')" .
  with m1 show ?thesis by simp
qed

end
